theory Spec2Isabelle
  imports Complex_Main
begin

section \<open>Python values used by streamer.py\<close>

text \<open>
  Exceptions the module raises or catches. \<open>OtherException\<close> stands for any further
  subclass of \<open>Exception\<close>; \<open>KeyboardInterrupt\<close> and \<open>SystemExit\<close> are not subclasses
  of \<open>Exception\<close> in Python.
\<close>

datatype exn =
    ArgumentTypeError string
  | JSONDecodeError
  | KeyError string
  | TypeError string
  | AttributeError
  | UnicodeEncodeError
  | NameError string
  | RuntimeError
  | ValueError string
  | IOError
  | KeyboardInterrupt
  | SystemExit
  | OtherException string

text \<open>Decoded JSON, also used for the values a status attribute can hold
  (\<open>JNull\<close> is Python's \<open>None\<close>). An object is an association list.\<close>

datatype json =
    JNull
  | JBool bool
  | JNum int
  | JStr string
  | JArr "json list"
  | JObj "(string \<times> json) list"

subsection \<open>Characters and strings\<close>

definition isspace :: "char \<Rightarrow> bool" where
  "isspace c = (c \<in> set [CHR '' '', CHR 0x09, CHR 0x0A, CHR 0x0B, CHR 0x0C, CHR 0x0D])"

definition isdigit :: "char \<Rightarrow> bool" where
  "isdigit c = (c \<in> set ''0123456789'')"

definition digit_value :: "char \<Rightarrow> nat" where
  "digit_value c =
     (case map_of (zip ''0123456789'' [0, 1, 2, 3, 4, 5, 6, 7, 8, 9]) c of
        None \<Rightarrow> 0 | Some d \<Rightarrow> d)"

definition lower_char :: "char \<Rightarrow> char" where
  "lower_char c =
     (case map_of (zip ''ABCDEFGHIJKLMNOPQRSTUVWXYZ'' ''abcdefghijklmnopqrstuvwxyz'') c of
        None \<Rightarrow> c | Some l \<Rightarrow> l)"

text \<open>\<open>str.lower()\<close>, \<open>str.strip()\<close>, \<open>int(digits)\<close>.\<close>

definition lower :: "string \<Rightarrow> string" where
  "lower s = map lower_char s"

definition strip :: "string \<Rightarrow> string" where
  "strip s = rev (dropWhile isspace (rev (dropWhile isspace s)))"

definition int_of_digits :: "string \<Rightarrow> int" where
  "int_of_digits ds = int (foldl (\<lambda>a c. 10 * a + digit_value c) 0 ds)"

text \<open>\<open>sub in s\<close> on strings, and \<open>s.startswith(p)\<close>.\<close>

fun startswith :: "string \<Rightarrow> string \<Rightarrow> bool" where
  "startswith s [] = True"
| "startswith [] (p # ps) = False"
| "startswith (c # cs) (p # ps) = (c = p \<and> startswith cs ps)"

fun contains :: "string \<Rightarrow> string \<Rightarrow> bool" where
  "contains [] sub = (sub = [])"
| "contains (c # cs) sub = (startswith (c # cs) sub \<or> contains cs sub)"

text \<open>\<open>value.split(",")\<close>: always at least one piece.\<close>

fun split_comma :: "string \<Rightarrow> string list" where
  "split_comma [] = [[]]"
| "split_comma (c # cs) =
     (if c = CHR '','' then [] # split_comma cs
      else (case split_comma cs of
              [] \<Rightarrow> [[c]]
            | w # ws \<Rightarrow> (c # w) # ws))"

section \<open>Location query macros\<close>







section \<open>Command line conversions\<close>

definition csv_args :: "string \<Rightarrow> string list" where
  "csv_args v = split_comma v"

text \<open>
  \<open>duration_type\<close>. The pattern \<open>^(?P<val>\d+)(?P<code>[\ssmd]+)\<close> is matched at the
  start of the padded, lower-cased text. Digits and the characters of the code class
  are disjoint, so the greedy match is the longest digit prefix followed by the longest
  run of code characters, and there is a match exactly when both are non-empty.
  The class is written \<open>[\ssmd]\<close>: white space, \<open>s\<close>, \<open>m\<close>, \<open>d\<close>.
\<close>

definition code_char :: "char \<Rightarrow> bool" where
  "code_char c = (isspace c \<or> c \<in> set ''smd'')"

definition re_match_duration :: "string \<Rightarrow> (string \<times> string) option" where
  "re_match_duration s =
     (let val = takeWhile isdigit s;
          code = takeWhile code_char (dropWhile isdigit s)
      in if val = [] \<or> code = [] then None else Some (val, code))"

definition secs :: "(char \<times> int) list" where
  "secs = [(CHR '' '', 1), (CHR ''s'', 1), (CHR ''m'', 60), (CHR ''h'', 3600), (CHR ''d'', 86400)]"

definition duration_type :: "string \<Rightarrow> exn + int" where
  \<open>duration_type v =
     (let padded = strip v @ '' '' in
      case re_match_duration (lower padded) of
        Some (val, code) \<Rightarrow>
          (let code1 = (if code = [] then CHR ''s'' else hd code) in
           case map_of secs code1 of
             Some factor \<Rightarrow> Inr (int_of_digits val * factor)
           | None \<Rightarrow> Inl (KeyError [code1]))
      | None \<Rightarrow>
          Inl (ArgumentTypeError (''Unexpected duration type "'' @ strip padded @ ''".'')))\<close>

text \<open>
  The \<open>--user-lang\<close> option of \<open>_parse_command_line\<close>: the argument is \<open>None\<close> when the
  option is not given. argparse converts a string default with the option's \<open>type\<close>,
  so the default \<open>'en'\<close> goes through \<open>csv_args\<close> like a given value. Afterwards a list
  that contains \<open>'*'\<close> is replaced by the empty list.
\<close>

definition parse_user_lang :: "string option \<Rightarrow> string list" where
  "parse_user_lang arg =
     (let user_lang = csv_args (case arg of None \<Rightarrow> ''en'' | Some v \<Rightarrow> v)
      in if user_lang \<noteq> [] \<and> ''*'' \<in> set user_lang then [] else user_lang)"

section \<open>The stream listener\<close>

text \<open>
  The options object (\<open>opts\<close>, the argparse namespace), with the options the listener
  reads; \<open>field_list\<close> is the option \<open>fields\<close>. An option that was not given is \<open>None\<close>;
  the source tests these options by truth value, so \<open>None\<close>, \<open>0\<close> and the empty list all
  count as unset. The module-level name \<open>opts\<close> read in \<open>parse_status_and_dispatch\<close> is
  the same object as \<open>self.opts\<close> when the module runs as a script, which is how
  \<open>process_tweets\<close> is reached.
\<close>

record opts =
  field_list :: "string list option"
  duration :: "int option"
  max_tweets :: "int option"
  report_lag :: "int option"
  user_lang :: "string list"
  no_retweets :: bool
  terminate_on_error :: bool

definition truthy_int :: "int option \<Rightarrow> bool" where
  "truthy_int x = (case x of None \<Rightarrow> False | Some n \<Rightarrow> n \<noteq> 0)"

text \<open>What the listener reads of a parsed status (\<open>tweepy.models.Status\<close>):
  \<open>id_str\<close>, \<open>text\<close>, whether it has a \<open>retweeted_status\<close> attribute, \<open>user.lang\<close>,
  and \<open>created_at\<close> in seconds.\<close>

record status =
  id_str :: string
  status_text :: string
  has_retweeted_status :: bool
  status_user_lang :: string
  created_at :: int

datatype pyobj = ObjJson json | ObjStatus status

text \<open>
  What the module takes from other modules, as parameters:
  \<open>json.loads\<close> (\<open>None\<close> when it raises \<open>JSONDecodeError\<close>),
  \<open>tweepy.models.Status.parse\<close>, \<open>utils.resolve_with_default(obj, path, default)\<close>
  and \<open>encode('utf8')\<close> on a string value.
\<close>

record env =
  json_loads :: "string \<Rightarrow> json option"
  Status_parse :: "json \<Rightarrow> exn + status"
  resolve_with_default :: "pyobj \<Rightarrow> string \<Rightarrow> json \<Rightarrow> exn + json"
  str_encode :: "string \<Rightarrow> exn + string"

datatype log_event =
    DebugStopDuration int int
  | DebugStopCount int
  | WarnUnrecognized string
  | WarnDisconnect json json json
  | ExceptionParsing string
  | ErrorFieldNotFound string string
  | WarnEncode string
  | WarnLag int
  | WarnWarning json json
  | ErrorOnError int
  | ErrorStopping
  | WarnOnTimeout
  | DebugFilter
  | DebugReturned
  | ExceptionIOError
  | ExceptionUnexpected
  | DebugSleeping
  | WarnStallWarnings

datatype out_line = CsvRow "json list" | RawLine string

text \<open>The listener's attributes, with standard output and the logger's records made
  part of the state. \<open>init_listener\<close> is the listener after \<open>StreamListener.__init__\<close>.\<close>

record listener =
  running :: bool
  first_message_received :: "int option"
  status_count :: int
  stdout :: "out_line list"
  logged :: "log_event list"

definition init_listener :: listener where
  "init_listener =
     \<lparr>running = True, first_message_received = None, status_count = 0,
      stdout = [], logged = []\<rparr>"

definition log_to :: "log_event \<Rightarrow> listener \<Rightarrow> listener" where
  "log_to ev st = st\<lparr>logged := logged st @ [ev]\<rparr>"

text \<open>A call returns a value or raises; either way the listener's state after it is
  kept. A method returns \<open>False\<close> or \<open>None\<close>.\<close>

datatype pyret = RetNone | RetFalse

datatype 'a outcome = Return 'a listener | Raise exn listener

fun state_of :: "'a outcome \<Rightarrow> listener" where
  "state_of (Return r st) = st"
| "state_of (Raise e st) = st"

subsection \<open>Stop test and match test\<close>

text \<open>Lines 289 to 292 of \<open>should_stop\<close>: the count test.\<close>

definition count_test :: "opts \<Rightarrow> listener \<Rightarrow> bool \<times> listener" where
  "count_test opts st =
     (case max_tweets opts of
        None \<Rightarrow> (False, st)
      | Some m \<Rightarrow>
          if m \<noteq> 0 \<and> status_count st > m
          then (True, log_to (DebugStopCount m) st)
          else (False, st))"

text \<open>\<open>should_stop\<close>; \<open>now\<close> is the reading of \<open>int(time.time())\<close>, one reading for all
  the clock reads made while one message is processed. With a duration set and a first
  message received, the method returns \<open>flag\<close> whatever its value.\<close>

definition should_stop :: "opts \<Rightarrow> int \<Rightarrow> listener \<Rightarrow> bool \<times> listener" where
  "should_stop opts now st =
     (case duration opts of
        None \<Rightarrow> count_test opts st
      | Some d \<Rightarrow>
          if d = 0 then count_test opts st
          else (case first_message_received st of
                  None \<Rightarrow> count_test opts st
                | Some t0 \<Rightarrow>
                    if t0 = 0 then count_test opts st
                    else (let et = now - t0; flag = (et \<ge> d)
                          in (flag, if flag then log_to (DebugStopDuration et d) st else st))))"

definition is_retweet :: "status \<Rightarrow> bool" where
  "is_retweet tweet =
     (has_retweeted_status tweet
      \<or> startswith (status_text tweet) ''RT ''
      \<or> contains (status_text tweet) '' RT '')"

definition tweet_matchp :: "opts \<Rightarrow> status \<Rightarrow> bool" where
  "tweet_matchp opts tweet =
     (if no_retweets opts \<and> is_retweet tweet then False
      else if user_lang opts \<noteq> [] then status_user_lang tweet \<in> set (user_lang opts)
      else True)"

subsection \<open>Handlers\<close>

text \<open>\<open>d.get(key)\<close> and \<open>d[key]\<close> on a decoded value.\<close>

definition py_get :: "json \<Rightarrow> string \<Rightarrow> exn + json" where
  "py_get j k =
     (case j of
        JObj kvs \<Rightarrow> (case map_of kvs k of None \<Rightarrow> Inr JNull | Some v \<Rightarrow> Inr v)
      | _ \<Rightarrow> Inl AttributeError)"

definition py_index :: "json \<Rightarrow> string \<Rightarrow> exn + json" where
  "py_index j k =
     (case j of
        JObj kvs \<Rightarrow> (case map_of kvs k of None \<Rightarrow> Inl (KeyError k) | Some v \<Rightarrow> Inr v)
      | _ \<Rightarrow> Inl (TypeError ''indices''))"

definition on_unrecognized :: "string \<Rightarrow> listener \<Rightarrow> pyret outcome" where
  "on_unrecognized stream_data st = Return RetNone (log_to (WarnUnrecognized (strip stream_data)) st)"

definition on_disconnect :: "env \<Rightarrow> string \<Rightarrow> listener \<Rightarrow> pyret outcome" where
  "on_disconnect env stream_data st =
     (case json_loads env stream_data of
        None \<Rightarrow> Raise JSONDecodeError st
      | Some msg \<Rightarrow>
          (case resolve_with_default env (ObjJson msg) ''disconnect.code'' (JNum 0) of
             Inl e \<Rightarrow> Raise e st
           | Inr code \<Rightarrow>
               (case resolve_with_default env (ObjJson msg) ''disconnect.stream_name'' (JStr ''n/a'') of
                  Inl e \<Rightarrow> Raise e st
                | Inr stream_name \<Rightarrow>
                    (case resolve_with_default env (ObjJson msg) ''disconnect.reason'' (JStr ''n/a'') of
                       Inl e \<Rightarrow> Raise e st
                     | Inr reason \<Rightarrow>
                         Return RetNone (log_to (WarnDisconnect code stream_name reason) st)))))"

definition on_warning :: "json \<Rightarrow> listener \<Rightarrow> pyret outcome" where
  "on_warning warning st =
     (case py_index warning ''code'' of
        Inl e \<Rightarrow> Raise e st
      | Inr code \<Rightarrow>
          (case py_index warning ''message'' of
             Inl e \<Rightarrow> Raise e st
           | Inr message \<Rightarrow> Return RetNone (log_to (WarnWarning code message) st)))"

definition parse_warning_and_dispatch :: "env \<Rightarrow> string \<Rightarrow> listener \<Rightarrow> pyret outcome" where
  "parse_warning_and_dispatch env stream_data st =
     (case json_loads env stream_data of
        None \<Rightarrow> Return RetFalse (log_to (ExceptionParsing stream_data) st)
      | Some j \<Rightarrow>
          (case py_get j ''warning'' of
             Inl e \<Rightarrow> Raise e st
           | Inr warning \<Rightarrow> on_warning warning st))"

text \<open>\<open>on_limit\<close> is inherited from \<open>tweepy.StreamListener\<close> and returns \<open>None\<close>.\<close>

definition parse_limit_and_dispatch :: "env \<Rightarrow> string \<Rightarrow> listener \<Rightarrow> pyret outcome" where
  "parse_limit_and_dispatch env stream_data st =
     (case json_loads env stream_data of
        None \<Rightarrow> Raise JSONDecodeError st
      | Some j \<Rightarrow>
          (case py_index j ''limit'' of
             Inl e \<Rightarrow> Raise e st
           | Inr l \<Rightarrow>
               (case py_index l ''track'' of
                  Inl e \<Rightarrow> Raise e st
                | Inr track \<Rightarrow> Return RetNone st)))"

subsection \<open>The status handler\<close>

definition MISSING_FIELD_VALUE :: json where
  "MISSING_FIELD_VALUE = JStr []"

text \<open>How the loop over \<open>self.opts.fields\<close> ends: the row is complete, the handler
  returns \<open>False\<close> at a field, or an exception leaves the loop at a field.\<close>

datatype row_result = RowComplete "json list" | RowTerminate string | RowRaise exn string

text \<open>Lines 172 to 182: the value of one field.\<close>

definition field_value :: "env \<Rightarrow> opts \<Rightarrow> status \<Rightarrow> string \<Rightarrow> row_result + json" where
  "field_value env opts st f =
     (case resolve_with_default env (ObjStatus st) f JNull of
        Inl e \<Rightarrow>
          if e = AttributeError
          then (if terminate_on_error opts then Inl (RowTerminate f) else Inr MISSING_FIELD_VALUE)
          else Inl (RowRaise e f)
      | Inr v \<Rightarrow> Inr v)"

text \<open>\<open>value.encode('utf8')\<close>: only a string has the method.\<close>

definition encode_value :: "env \<Rightarrow> json \<Rightarrow> exn + json" where
  "encode_value env v =
     (case v of
        JStr s \<Rightarrow> (case str_encode env s of Inl e \<Rightarrow> Inl e | Inr s' \<Rightarrow> Inr (JStr s'))
      | _ \<Rightarrow> Inl AttributeError)"

text \<open>Lines 188 to 192: encode the value, keep it as it is on \<open>AttributeError\<close>, append.\<close>

definition append_field :: "env \<Rightarrow> json \<Rightarrow> string \<Rightarrow> json list \<Rightarrow> row_result + json list" where
  "append_field env v f csvrow =
     (case encode_value env v of
        Inl e \<Rightarrow> if e = AttributeError then Inr (csvrow @ [v]) else Inl (RowRaise e f)
      | Inr v' \<Rightarrow> Inr (csvrow @ [v']))"

fun csv_fields :: "env \<Rightarrow> opts \<Rightarrow> status \<Rightarrow> string list \<Rightarrow> json list \<Rightarrow> row_result" where
  "csv_fields env opts st [] csvrow = RowComplete csvrow"
| "csv_fields env opts st (f # fs) csvrow =
     (case field_value env opts st f of
        Inl r \<Rightarrow> r
      | Inr v \<Rightarrow>
          (case append_field env v f csvrow of
             Inl r \<Rightarrow> r
           | Inr csvrow' \<Rightarrow> csv_fields env opts st fs csvrow'))"

text \<open>Lines 169 to 196. The result \<open>Return None\<close> means that control goes on after the
  block, \<open>Return (Some r)\<close> that the handler returns \<open>r\<close>. \<open>csv_writer.writerow\<close> is taken
  to write the row without raising.\<close>

definition write_csv_row ::
  "env \<Rightarrow> opts \<Rightarrow> status \<Rightarrow> string list \<Rightarrow> listener \<Rightarrow> pyret option outcome" where
  "write_csv_row env opts tweet fs st =
     (case csv_fields env opts tweet fs [] of
        RowComplete csvrow \<Rightarrow> Return None (st\<lparr>stdout := stdout st @ [CsvRow csvrow]\<rparr>)
      | RowTerminate f \<Rightarrow>
          Return (Some RetFalse) ((log_to (ErrorFieldNotFound f (id_str tweet)) st)\<lparr>running := False\<rparr>)
      | RowRaise e f \<Rightarrow>
          if e = UnicodeEncodeError then Return None (log_to (WarnEncode f) st)
          else Raise e st)"

text \<open>Lines 168 to 199.\<close>

definition emit_status ::
  "env \<Rightarrow> opts \<Rightarrow> string \<Rightarrow> status \<Rightarrow> listener \<Rightarrow> pyret option outcome" where
  "emit_status env opts stream_data tweet st =
     (case field_list opts of
        None \<Rightarrow> Return None (st\<lparr>stdout := stdout st @ [RawLine (strip stream_data)]\<rparr>)
      | Some fs \<Rightarrow>
          if fs = [] then Return None (st\<lparr>stdout := stdout st @ [RawLine (strip stream_data)]\<rparr>)
          else write_csv_row env opts tweet fs st)"

text \<open>Lines 204 to 212. \<open>delta.seconds\<close> of a \<open>timedelta\<close> lies between 0 and 86399.\<close>

definition lag_check :: "env \<Rightarrow> opts \<Rightarrow> int \<Rightarrow> string \<Rightarrow> listener \<Rightarrow> pyret outcome" where
  "lag_check env opts now stream_data st =
     (case report_lag opts of
        None \<Rightarrow> Return RetNone st
      | Some lag \<Rightarrow>
          if lag = 0 then Return RetNone st
          else (case json_loads env stream_data of
                  None \<Rightarrow> Raise JSONDecodeError st
                | Some j \<Rightarrow>
                    (case Status_parse env j of
                       Inl e \<Rightarrow> Raise e st
                     | Inr tweepy_status \<Rightarrow>
                         (let seconds = (now - created_at tweepy_status) mod 86400
                          in if \<bar>seconds\<bar> > lag
                             then Return RetNone (log_to (WarnLag seconds) st)
                             else Return RetNone st))))"

definition parse_status_and_dispatch ::
  "env \<Rightarrow> opts \<Rightarrow> int \<Rightarrow> string \<Rightarrow> listener \<Rightarrow> pyret outcome" where
  "parse_status_and_dispatch env opts now stream_data st =
     (case json_loads env stream_data of
        None \<Rightarrow> Raise JSONDecodeError st
      | Some j \<Rightarrow>
          (case Status_parse env j of
             Inl e \<Rightarrow> Raise e st
           | Inr tweet \<Rightarrow>
               if tweet_matchp opts tweet then
                 (case should_stop opts now (st\<lparr>status_count := status_count st + 1\<rparr>) of
                    (stop, st2) \<Rightarrow>
                      if stop then Return RetFalse (st2\<lparr>running := False\<rparr>)
                      else (case emit_status env opts stream_data tweet st2 of
                              Return None st3 \<Rightarrow> lag_check env opts now stream_data st3
                            | Return (Some r) st3 \<Rightarrow> Return r st3
                            | Raise e st3 \<Rightarrow> Raise e st3))
               else lag_check env opts now stream_data st))"

subsection \<open>Recognizers and \<open>on_data\<close>\<close>

datatype handler =
    StatusHandler
  | LimitHandler
  | WarningHandler
  | DisconnectHandler
  | UnrecognizedHandler

datatype recognizer =
    DataContainsRecognizer handler string
  | MatchAnyRecognizer handler

fun handler_method :: "recognizer \<Rightarrow> handler" where
  "handler_method (DataContainsRecognizer h s) = h"
| "handler_method (MatchAnyRecognizer h) = h"

definition recognizers :: "recognizer list" where
  \<open>recognizers =
     [DataContainsRecognizer StatusHandler ''"in_reply_to_user_id_str":'',
      DataContainsRecognizer LimitHandler ''"limit":{'',
      DataContainsRecognizer WarningHandler ''"warning":'',
      DataContainsRecognizer DisconnectHandler ''"disconnect":'',
      MatchAnyRecognizer UnrecognizedHandler]\<close>

text \<open>
  Modelled from the spec: the module \<open>message_recognizers\<close> is not among the sources.
  The predicate of a recognizer is a test on the raw text, containment of a literal
  substring; the last recognizer of the chain has a predicate that always matches.
  \<open>handle_message\<close> calls the recognizer's handler method on the message and returns
  what it returns.
\<close>

fun recognizer_match :: "recognizer \<Rightarrow> string \<Rightarrow> bool" where
  "recognizer_match (DataContainsRecognizer h match_string) stream_data = contains stream_data match_string"
| "recognizer_match (MatchAnyRecognizer h) stream_data = True"

definition call_handler ::
  "env \<Rightarrow> opts \<Rightarrow> int \<Rightarrow> handler \<Rightarrow> string \<Rightarrow> listener \<Rightarrow> pyret outcome" where
  "call_handler env opts now h stream_data st =
     (case h of
        StatusHandler \<Rightarrow> parse_status_and_dispatch env opts now stream_data st
      | LimitHandler \<Rightarrow> parse_limit_and_dispatch env stream_data st
      | WarningHandler \<Rightarrow> parse_warning_and_dispatch env stream_data st
      | DisconnectHandler \<Rightarrow> on_disconnect env stream_data st
      | UnrecognizedHandler \<Rightarrow> on_unrecognized stream_data st)"

definition handle_message ::
  "env \<Rightarrow> opts \<Rightarrow> int \<Rightarrow> recognizer \<Rightarrow> string \<Rightarrow> listener \<Rightarrow> pyret outcome" where
  "handle_message env opts now r stream_data st =
     call_handler env opts now (handler_method r) stream_data st"

text \<open>What the loop of \<open>on_data\<close> did with the chain: the recognizers whose \<open>match\<close> it
  called and the handlers it invoked, in order.\<close>

datatype probe = Evaluated recognizer | Invoked handler

text \<open>Lines 266 to 272: when the handler returned \<open>False\<close>, \<open>on_data\<close> clears \<open>running\<close>
  and returns \<open>False\<close>; after any other value it returns \<open>None\<close>.\<close>

definition stop_on_false :: "pyret outcome \<Rightarrow> pyret outcome" where
  "stop_on_false res =
     (case res of
        Return ret st' \<Rightarrow>
          if ret = RetFalse then Return RetFalse (st'\<lparr>running := False\<rparr>)
          else Return RetNone st'
      | Raise e st' \<Rightarrow> Raise e st')"

text \<open>Lines 264 to 274: the loop over the recognizers.\<close>

fun dispatch ::
  "env \<Rightarrow> opts \<Rightarrow> int \<Rightarrow> recognizer list \<Rightarrow> string \<Rightarrow> listener \<Rightarrow> pyret outcome \<times> probe list" where
  "dispatch env opts now [] stream_data st = (Return RetNone st, [])"
| "dispatch env opts now (r # rs) stream_data st =
     (if recognizer_match r stream_data then
        (stop_on_false (handle_message env opts now r stream_data st),
         [Evaluated r, Invoked (handler_method r)])
      else (case dispatch env opts now rs stream_data st of
              (res, probes) \<Rightarrow> (res, Evaluated r # probes)))"

fun invoked :: "probe list \<Rightarrow> handler list" where
  "invoked [] = []"
| "invoked (Evaluated r # ps) = invoked ps"
| "invoked (Invoked h # ps) = h # invoked ps"

fun evaluated :: "probe list \<Rightarrow> recognizer list" where
  "evaluated [] = []"
| "evaluated (Evaluated r # ps) = r # evaluated ps"
| "evaluated (Invoked h # ps) = evaluated ps"

text \<open>Lines 257 and 258.\<close>

definition note_first_message :: "int \<Rightarrow> listener \<Rightarrow> listener" where
  "note_first_message now st =
     (if truthy_int (first_message_received st) then st
      else st\<lparr>first_message_received := Some now\<rparr>)"

definition on_data ::
  "env \<Rightarrow> opts \<Rightarrow> int \<Rightarrow> string \<Rightarrow> listener \<Rightarrow> pyret outcome \<times> probe list" where
  "on_data env opts now stream_data st =
     (case should_stop opts now (note_first_message now st) of
        (stop, st2) \<Rightarrow>
          if stop then (Return RetFalse (st2\<lparr>running := False\<rparr>), [])
          else dispatch env opts now recognizers stream_data st2)"

definition on_error :: "int \<Rightarrow> listener \<Rightarrow> pyret outcome" where
  "on_error status_code st =
     (if status_code \<noteq> 401
      then Return RetFalse ((log_to ErrorStopping (log_to (ErrorOnError status_code) st))\<lparr>running := False\<rparr>)
      else Return RetNone (log_to (ErrorOnError status_code) st))"

definition on_timeout :: "listener \<Rightarrow> pyret outcome" where
  "on_timeout st = Return RetNone (log_to WarnOnTimeout st)"

section \<open>The session loop\<close>

text \<open>
  \<open>streamer.filter\<close> belongs to tweepy. One call of it is described by what the
  transport does during the call: the listener callbacks it makes, in order (a message
  with the clock reading at its arrival, an HTTP error status, a timeout), and how the
  call ends when no callback stops it (\<open>None\<close>: it returns; \<open>Some e\<close>: it raises \<open>e\<close>).
  tweepy stops calling and returns when a callback returns \<open>False\<close>, and it lets an
  exception of a callback pass to the caller of \<open>filter\<close>.
\<close>

datatype callback = Data string int | HttpError int | Timeout

record attempt =
  callbacks :: "callback list"
  ending :: "exn option"

definition callback_result :: "env \<Rightarrow> opts \<Rightarrow> callback \<Rightarrow> listener \<Rightarrow> pyret outcome" where
  "callback_result env opts cb st =
     (case cb of
        Data stream_data now \<Rightarrow> fst (on_data env opts now stream_data st)
      | HttpError status_code \<Rightarrow> on_error status_code st
      | Timeout \<Rightarrow> on_timeout st)"

fun deliver :: "env \<Rightarrow> opts \<Rightarrow> callback list \<Rightarrow> exn option \<Rightarrow> listener \<Rightarrow> exn option \<times> listener" where
  "deliver env opts [] fin st = (fin, st)"
| "deliver env opts (cb # cbs) fin st =
     (case callback_result env opts cb st of
        Return ret st' \<Rightarrow> if ret = RetFalse then (None, st') else deliver env opts cbs fin st'
      | Raise e st' \<Rightarrow> (Some e, st'))"

definition stream_filter :: "env \<Rightarrow> opts \<Rightarrow> attempt \<Rightarrow> listener \<Rightarrow> exn option \<times> listener" where
  "stream_filter env opts a st = deliver env opts (callbacks a) (ending a) st"

text \<open>The handler \<open>except Exception\<close> of the loop.\<close>

definition unexpected :: "listener \<Rightarrow> listener" where
  "unexpected st = log_to ExceptionUnexpected (st\<lparr>running := False\<rparr>)"

text \<open>
  Lines 352 to 373: what the \<open>try\<close> statements of the loop do with the end of the call.
  The retry \<open>streamer.filter(track=track)\<close> reads a name that the module never binds,
  so it raises \<open>NameError\<close>, which the handler \<open>except Exception\<close> receives; a
  \<open>TypeError\<close> without \<open>stall_warnings\<close> in its message is raised again and reaches the
  same handler. \<open>SystemExit\<close> is caught by none of the handlers.
\<close>

definition after_filter :: "opts \<Rightarrow> exn option \<Rightarrow> listener \<Rightarrow> exn + listener" where
  "after_filter opts fin st =
     (case fin of
        None \<Rightarrow> Inr (log_to DebugReturned st)
      | Some e \<Rightarrow>
          (case e of
             TypeError message \<Rightarrow>
               if contains message ''stall_warnings''
               then Inr (unexpected (log_to WarnStallWarnings st))
               else Inr (unexpected st)
           | IOError \<Rightarrow>
               Inr (log_to ExceptionIOError
                      (if terminate_on_error opts then st\<lparr>running := False\<rparr> else st))
           | KeyboardInterrupt \<Rightarrow> Inr (st\<lparr>running := False\<rparr>)
           | SystemExit \<Rightarrow> Inl SystemExit
           | _ \<Rightarrow> Inr (unexpected st)))"

text \<open>What the loop did outside the listener: calls of \<open>streamer.filter\<close> and calls of
  \<open>time.sleep\<close> with their argument.\<close>

datatype action = CallFilter | Sleep nat

text \<open>How far the loop got on the given attempts: it left the loop, it is about to
  call \<open>streamer.filter\<close> again (the list of attempts is used up and \<open>running\<close> is still
  true), or an exception left \<open>process_tweets\<close>.\<close>

datatype session = Terminated listener | Connecting listener | Uncaught exn listener

text \<open>Lines 351 to 377: \<open>while listener.running\<close>.\<close>

fun main_loop ::
  "env \<Rightarrow> opts \<Rightarrow> attempt list \<Rightarrow> listener \<Rightarrow> action list \<Rightarrow> session \<times> action list" where
  "main_loop env opts [] st acts =
     (if running st then (Connecting st, acts) else (Terminated st, acts))"
| "main_loop env opts (a # as) st acts =
     (if \<not> running st then (Terminated st, acts)
      else (case stream_filter env opts a (log_to DebugFilter st) of
              (fin, st2) \<Rightarrow>
                (case after_filter opts fin st2 of
                   Inl e \<Rightarrow> (Uncaught e st2, acts @ [CallFilter])
                 | Inr st3 \<Rightarrow>
                     if running st3
                     then main_loop env opts as (log_to DebugSleeping st3) (acts @ [CallFilter, Sleep 5])
                     else main_loop env opts as st3 (acts @ [CallFilter]))))"

text \<open>\<open>process_tweets\<close>; \<open>filter_args\<close> is how \<open>make_filter_args\<close> ended (\<open>None\<close>: it
  returned the arguments).\<close>

definition process_tweets ::
  "env \<Rightarrow> opts \<Rightarrow> exn option \<Rightarrow> attempt list \<Rightarrow> session \<times> action list" where
  "process_tweets env opts filter_args attempts =
     (case filter_args of
        None \<Rightarrow> main_loop env opts attempts init_listener []
      | Some e \<Rightarrow>
          (case e of
             ValueError message \<Rightarrow> (Terminated (init_listener\<lparr>running := False\<rparr>), [])
           | _ \<Rightarrow> (Uncaught e init_listener, [])))"

text \<open>A call of \<open>streamer.filter\<close> that makes no callback and raises \<open>IOError\<close>, and the
  listener after \<open>n\<close> such calls, each followed by the sleep.\<close>

definition io_error_attempt :: attempt where
  "io_error_attempt = \<lparr>callbacks = [], ending = Some IOError\<rparr>"

fun backoff_log :: "nat \<Rightarrow> listener \<Rightarrow> listener" where
  "backoff_log 0 st = st"
| "backoff_log (Suc n) st =
     backoff_log n (log_to DebugSleeping (log_to ExceptionIOError (log_to DebugFilter st)))"

section \<open>Sample inputs\<close>

text \<open>The options of a run that gives only track keywords on the command line.\<close>

definition default_opts :: opts where
  "default_opts =
     \<lparr>field_list = None, duration = None, max_tweets = None, report_lag = None,
      user_lang = parse_user_lang None, no_retweets = False, terminate_on_error = False\<rparr>"

definition tweet_en :: status where
  "tweet_en =
     \<lparr>id_str = ''1'', status_text = ''hello'', has_retweeted_status = False,
      status_user_lang = ''en'', created_at = 1000\<rparr>"

definition tweet_fr :: status where
  "tweet_fr = tweet_en\<lparr>status_text := ''bonjour'', status_user_lang := ''fr''\<rparr>"

text \<open>
  A sample environment: a text decodes when it ends with a closing brace, every decoded
  value parses to the status \<open>tweet_en\<close>, the path \<open>missing\<close> does not resolve (with the
  default \<open>None\<close> the resolver raises \<open>AttributeError\<close>) and any other path resolves to
  a string, and a string encodes to itself.
\<close>

definition sample_env :: env where
  "sample_env =
     \<lparr>json_loads = (\<lambda>s. if s \<noteq> [] \<and> last s = CHR ''}'' then Some (JObj []) else None),
      Status_parse = (\<lambda>j. Inr tweet_en),
      resolve_with_default =
        (\<lambda>obj path default.
           if path = ''missing''
           then (if default = JNull then Inl AttributeError else Inr default)
           else Inr (JStr path)),
      str_encode = (\<lambda>s. Inr s)\<rparr>"

section \<open>Properties of the conversions\<close>

lemmas duration_defs =
  duration_type_def strip_def lower_def lower_char_def re_match_duration_def
  isspace_def isdigit_def code_char_def secs_def int_of_digits_def digit_value_def

lemma split_comma_nonempty: "split_comma s \<noteq> []"
  by (induction s) (auto split: list.splits)

lemma csv_args_nonempty: "csv_args v \<noteq> []"
  by (simp add: csv_args_def split_comma_nonempty)

text \<open>
  C3. \<open>duration_type\<close> maps \<open>"5"\<close> to 5, \<open>"5m"\<close> to 300 and \<open>"5d"\<close> to 432000 seconds and
  raises \<open>ArgumentTypeError\<close> on \<open>"abc"\<close>. On \<open>"5h"\<close> it raises the same error instead of
  returning 18000: the table \<open>secs\<close> has the factor 3600 for \<open>h\<close>, but the character
  class of the pattern has no \<open>h\<close>, so the pattern does not match.
\<close>

theorem duration_type_examples:
  \<open>duration_type ''5'' = Inr 5
   \<and> duration_type ''5m'' = Inr 300
   \<and> duration_type ''5d'' = Inr 432000
   \<and> duration_type ''abc'' = Inl (ArgumentTypeError ''Unexpected duration type "abc".'')
   \<and> duration_type ''5h'' = Inl (ArgumentTypeError ''Unexpected duration type "5h".'')
   \<and> map_of secs CHR ''h'' = Some 3600
   \<and> \<not> code_char CHR ''h''\<close>
  by (simp add: duration_defs)

section \<open>Properties of the location macros\<close>












section \<open>Properties of the stop test\<close>

lemmas run_defs =
  on_data_def note_first_message_def truthy_int_def should_stop_def count_test_def
  recognizers_def handle_message_def call_handler_def stop_on_false_def
  parse_status_and_dispatch_def parse_limit_and_dispatch_def parse_warning_and_dispatch_def
  on_disconnect_def on_unrecognized_def on_warning_def on_error_def on_timeout_def
  emit_status_def write_csv_row_def field_value_def append_field_def encode_value_def
  lag_check_def tweet_matchp_def is_retweet_def MISSING_FIELD_VALUE_def
  log_to_def init_listener_def default_opts_def sample_env_def tweet_en_def tweet_fr_def
  parse_user_lang_def csv_args_def py_get_def py_index_def strip_def isspace_def

lemmas loop_defs =
  process_tweets_def stream_filter_def callback_result_def after_filter_def unexpected_def

text \<open>With no duration set, the count test decides: stop exactly when the count
  exceeds a non-zero limit.\<close>

lemma should_stop_count_only:
  "\<not> truthy_int (duration opts) \<Longrightarrow> max_tweets opts = Some m \<Longrightarrow> m \<noteq> 0 \<Longrightarrow>
   fst (should_stop opts now st) = (status_count st > m)"
  by (auto simp: should_stop_def count_test_def truthy_int_def split: option.splits)

text \<open>With a duration set and a first message received, the elapsed time alone
  decides.\<close>

lemma should_stop_duration_only:
  "duration opts = Some d \<Longrightarrow> d \<noteq> 0 \<Longrightarrow> first_message_received st = Some t0 \<Longrightarrow> t0 \<noteq> 0 \<Longrightarrow>
   fst (should_stop opts now st) = (now - t0 \<ge> d)"
  by (auto simp: should_stop_def Let_def)

lemma should_stop_frame:
  "running (snd (should_stop opts now st)) = running st"
  "status_count (snd (should_stop opts now st)) = status_count st"
  "stdout (snd (should_stop opts now st)) = stdout st"
  "first_message_received (snd (should_stop opts now st)) = first_message_received st"
  by (auto simp: should_stop_def count_test_def log_to_def Let_def split: option.splits)

text \<open>
  C2. With the limit \<open>max_tweets = 1\<close> and two matched records counted, \<open>should_stop\<close>
  returns \<open>True\<close> when no duration is set, and \<open>False\<close> after one matched record. With a
  duration of 60 seconds also set, a first message received at time 1000 and the clock
  at 1010, it returns \<open>False\<close> on the same count: the method returns the duration flag
  and does not reach the count test.
\<close>

theorem should_stop_count_masked_by_duration:
  "fst (should_stop (default_opts\<lparr>max_tweets := Some 1\<rparr>) 1010
          (init_listener\<lparr>first_message_received := Some 1000, status_count := 2\<rparr>)) = True
   \<and> fst (should_stop (default_opts\<lparr>max_tweets := Some 1\<rparr>) 1010
          (init_listener\<lparr>first_message_received := Some 1000, status_count := 1\<rparr>)) = False
   \<and> fst (should_stop (default_opts\<lparr>duration := Some 60, max_tweets := Some 1\<rparr>) 1010
          (init_listener\<lparr>first_message_received := Some 1000, status_count := 2\<rparr>)) = False"
  by (simp add: should_stop_def count_test_def default_opts_def init_listener_def Let_def)

section \<open>Properties of the dispatch loop\<close>

lemma dispatch_probes:
  "snd (dispatch env opts now rs stream_data st) =
     (case find (\<lambda>r. recognizer_match r stream_data) rs of
        None \<Rightarrow> map Evaluated rs
      | Some r \<Rightarrow> map Evaluated (takeWhile (\<lambda>r. \<not> recognizer_match r stream_data) rs)
                   @ [Evaluated r, Invoked (handler_method r)])"
  by (induction rs) (auto split: prod.splits option.splits)

lemma dispatch_result:
  "find (\<lambda>r. recognizer_match r stream_data) rs = Some r \<Longrightarrow>
   fst (dispatch env opts now rs stream_data st) =
     stop_on_false (handle_message env opts now r stream_data st)"
  by (induction rs) (auto split: prod.splits if_splits)

lemma evaluated_map: "evaluated (map Evaluated rs @ ps) = rs @ evaluated ps"
  by (induction rs) auto

lemma invoked_map: "invoked (map Evaluated rs @ ps) = invoked ps"
  by (induction rs) auto

lemma find_recognizers:
  "\<exists>r. find (\<lambda>r. recognizer_match r stream_data) recognizers = Some r"
  by (simp add: recognizers_def)

lemma catch_all_last:
  "find (\<lambda>r. recognizer_match r stream_data) recognizers = Some r \<Longrightarrow>
   (r = MatchAnyRecognizer UnrecognizedHandler) =
     (\<not> list_ex (\<lambda>r'. recognizer_match r' stream_data) (butlast recognizers))"
  by (auto simp: recognizers_def split: if_splits)

text \<open>\<open>on_data\<close> returns \<open>False\<close> without entering the loop when the stop test at its entry
  says stop; otherwise its result is the result of the loop.\<close>

lemma on_data_stop:
  "fst (should_stop opts now (note_first_message now st)) \<Longrightarrow>
   on_data env opts now stream_data st =
     (Return RetFalse ((snd (should_stop opts now (note_first_message now st)))\<lparr>running := False\<rparr>), [])"
  by (cases "should_stop opts now (note_first_message now st)") (simp add: on_data_def)

lemma on_data_dispatch:
  "\<not> fst (should_stop opts now (note_first_message now st)) \<Longrightarrow>
   on_data env opts now stream_data st =
     dispatch env opts now recognizers stream_data
       (snd (should_stop opts now (note_first_message now st)))"
  by (cases "should_stop opts now (note_first_message now st)") (simp add: on_data_def)

text \<open>
  C1. The chain is declared in the order status, limit, warning, disconnect, catch-all.
  \<open>on_data\<close> first makes its stop test and, unless that says stop, gives the message to
  the loop over the chain. On every message the loop invokes exactly one handler, the
  handler of the first recognizer of the chain whose predicate matches. The predicates
  it evaluates are those of the recognizers before that one and its own, and no later
  one. The result of the loop is the result of that handler. The catch-all is the one
  chosen exactly when none of the four recognizers before it matches.
\<close>

theorem dispatch_first_match:
  "map handler_method recognizers =
     [StatusHandler, LimitHandler, WarningHandler, DisconnectHandler, UnrecognizedHandler]
   \<and> on_data env opts now stream_data st0 =
       (if fst (should_stop opts now (note_first_message now st0))
        then (Return RetFalse
                ((snd (should_stop opts now (note_first_message now st0)))\<lparr>running := False\<rparr>), [])
        else dispatch env opts now recognizers stream_data
               (snd (should_stop opts now (note_first_message now st0))))
   \<and> (\<exists>r. find (\<lambda>r. recognizer_match r stream_data) recognizers = Some r
     \<and> invoked (snd (dispatch env opts now recognizers stream_data st)) = [handler_method r]
     \<and> evaluated (snd (dispatch env opts now recognizers stream_data st))
         = takeWhile (\<lambda>r. \<not> recognizer_match r stream_data) recognizers @ [r]
     \<and> fst (dispatch env opts now recognizers stream_data st)
         = stop_on_false (handle_message env opts now r stream_data st)
     \<and> (r = MatchAnyRecognizer UnrecognizedHandler)
         = (\<not> list_ex (\<lambda>r'. recognizer_match r' stream_data) (butlast recognizers)))"
proof -
  have order: "map handler_method recognizers =
     [StatusHandler, LimitHandler, WarningHandler, DisconnectHandler, UnrecognizedHandler]"
    by (simp add: recognizers_def)
  have entry: "on_data env opts now stream_data st0 =
       (if fst (should_stop opts now (note_first_message now st0))
        then (Return RetFalse
                ((snd (should_stop opts now (note_first_message now st0)))\<lparr>running := False\<rparr>), [])
        else dispatch env opts now recognizers stream_data
               (snd (should_stop opts now (note_first_message now st0))))"
    using on_data_stop[of opts now st0 env stream_data] on_data_dispatch[of opts now st0 env stream_data]
    by simp
  obtain r where r: "find (\<lambda>r. recognizer_match r stream_data) recognizers = Some r"
    using find_recognizers by blast
  have p: "snd (dispatch env opts now recognizers stream_data st) =
      map Evaluated (takeWhile (\<lambda>r. \<not> recognizer_match r stream_data) recognizers)
        @ [Evaluated r, Invoked (handler_method r)]"
    using r by (simp add: dispatch_probes)
  have "invoked (snd (dispatch env opts now recognizers stream_data st)) = [handler_method r]"
    by (simp only: p invoked_map) simp
  moreover have "evaluated (snd (dispatch env opts now recognizers stream_data st))
         = takeWhile (\<lambda>r. \<not> recognizer_match r stream_data) recognizers @ [r]"
    by (simp only: p evaluated_map) simp
  moreover have "fst (dispatch env opts now recognizers stream_data st)
         = stop_on_false (handle_message env opts now r stream_data st)"
    using dispatch_result[OF r] by simp
  ultimately show ?thesis using r catch_all_last[OF r] order entry by blast
qed

section \<open>Properties of the handlers\<close>

lemma note_first_message_running: "running (note_first_message now st) = running st"
  by (simp add: note_first_message_def)

lemma lag_check_frame:
  "running (state_of (lag_check env opts now stream_data st)) = running st"
  "status_count (state_of (lag_check env opts now stream_data st)) = status_count st"
  "stdout (state_of (lag_check env opts now stream_data st)) = stdout st"
  by (auto simp: lag_check_def log_to_def Let_def split: option.splits sum.splits)

lemma write_csv_row_count:
  "status_count (state_of (write_csv_row env opts tweet fs st)) = status_count st"
  by (auto simp: write_csv_row_def log_to_def split: row_result.splits)

lemma emit_status_count:
  "status_count (state_of (emit_status env opts stream_data tweet st)) = status_count st"
  by (auto simp: emit_status_def write_csv_row_count split: option.splits)

lemma main_loop_stopped:
  "\<not> running st \<Longrightarrow> main_loop env opts as st acts = (Terminated st, acts)"
  by (cases as) simp_all

text \<open>A message that does not decode, delivered first in a call of \<open>streamer.filter\<close> to
  a running listener and matched by one of the four recognizers before the catch-all,
  ends the session: the loop of \<open>process_tweets\<close> is left after this call.\<close>

lemma malformed_ends_session:
  assumes l: "json_loads env stream_data = None" and r: "running st"
    and s: "\<not> fst (should_stop opts now (note_first_message now (log_to DebugFilter st)))"
    and f: "find (\<lambda>r. recognizer_match r stream_data) recognizers = Some r"
    and h: "handler_method r \<noteq> UnrecognizedHandler"
  shows "\<exists>st'. main_loop env opts (\<lparr>callbacks = Data stream_data now # cbs, ending = fin\<rparr> # as) st acts
            = (Terminated st', acts @ [CallFilter]) \<and> \<not> running st'"
proof -
  let ?st1 = "log_to DebugFilter st"
  let ?st2 = "snd (should_stop opts now (note_first_message now ?st1))"
  have od: "fst (on_data env opts now stream_data ?st1) =
      stop_on_false (call_handler env opts now (handler_method r) stream_data ?st2)"
    using on_data_dispatch[OF s] dispatch_result[OF f] by (simp add: handle_message_def)
  show ?thesis
  proof (cases "handler_method r = WarningHandler")
    case True
    then have "fst (on_data env opts now stream_data ?st1) =
        Return RetFalse ((log_to (ExceptionParsing stream_data) ?st2)\<lparr>running := False\<rparr>)"
      using od l by (simp add: call_handler_def parse_warning_and_dispatch_def stop_on_false_def)
    then show ?thesis using r
      by (simp add: stream_filter_def callback_result_def after_filter_def main_loop_stopped log_to_def)
  next
    case False
    then have "call_handler env opts now (handler_method r) stream_data ?st2 =
        Raise JSONDecodeError ?st2"
      using h l
      by (cases "handler_method r")
         (simp_all add: call_handler_def parse_status_and_dispatch_def
            parse_limit_and_dispatch_def on_disconnect_def)
    then have "fst (on_data env opts now stream_data ?st1) = Raise JSONDecodeError ?st2"
      using od by (simp add: stop_on_false_def)
    then show ?thesis using r
      by (simp add: stream_filter_def callback_result_def after_filter_def unexpected_def
          main_loop_stopped log_to_def)
  qed
qed

text \<open>
  C4, as the claim states it: a malformed message never terminates the session. A run
  of \<open>process_tweets\<close> whose first call of \<open>streamer.filter\<close> delivers, at time 100, the
  text \<open>{"in_reply_to_user_id_str":\<close>, which is matched by the status recognizer and is
  not JSON: the decoding error leaves \<open>on_data\<close>, the handler \<open>except Exception\<close> of the
  loop clears \<open>running\<close>, and the session is terminated after this one call.
\<close>

theorem malformed_status_ends_session:
  \<open>process_tweets sample_env default_opts None
      [\<lparr>callbacks = [Data ''{"in_reply_to_user_id_str":'' 100], ending = None\<rparr>]
   = (Terminated
        \<lparr>running = False, first_message_received = Some 100, status_count = 0,
         stdout = [], logged = [DebugFilter, ExceptionUnexpected]\<rparr>,
      [CallFilter])\<close>
  by (simp add: loop_defs run_defs)

text \<open>
  C4, amended. When the message does not decode, the status, limit and disconnect
  handlers raise \<open>JSONDecodeError\<close> with the listener unchanged, and the warning handler
  logs the exception and returns \<open>False\<close>. Neither is a continue: \<open>on_data\<close> clears
  \<open>running\<close> on the \<open>False\<close>, the loop of \<open>process_tweets\<close> clears it on the exception, and
  a session that gets such a message through one of the four recognizers is terminated
  after the call that delivered it.
\<close>

theorem malformed_message_not_recovered:
  assumes "json_loads env stream_data = None"
  shows "parse_status_and_dispatch env opts now stream_data st = Raise JSONDecodeError st
    \<and> parse_limit_and_dispatch env stream_data st = Raise JSONDecodeError st
    \<and> on_disconnect env stream_data st = Raise JSONDecodeError st
    \<and> parse_warning_and_dispatch env stream_data st =
        Return RetFalse (log_to (ExceptionParsing stream_data) st)
    \<and> stop_on_false (parse_warning_and_dispatch env stream_data st) =
        Return RetFalse ((log_to (ExceptionParsing stream_data) st)\<lparr>running := False\<rparr>)
    \<and> after_filter opts (Some JSONDecodeError) st = Inr (unexpected st)
    \<and> \<not> running (unexpected st)
    \<and> (running st \<longrightarrow>
         \<not> fst (should_stop opts now (note_first_message now (log_to DebugFilter st))) \<longrightarrow>
         find (\<lambda>r. recognizer_match r stream_data) recognizers = Some r \<longrightarrow>
         handler_method r \<noteq> UnrecognizedHandler \<longrightarrow>
         (\<exists>st'. main_loop env opts
                   (\<lparr>callbacks = Data stream_data now # cbs, ending = fin\<rparr> # as) st acts
                 = (Terminated st', acts @ [CallFilter]) \<and> \<not> running st'))"
proof -
  have "parse_status_and_dispatch env opts now stream_data st = Raise JSONDecodeError st"
    using assms by (simp add: parse_status_and_dispatch_def)
  moreover have "parse_limit_and_dispatch env stream_data st = Raise JSONDecodeError st"
    using assms by (simp add: parse_limit_and_dispatch_def)
  moreover have "on_disconnect env stream_data st = Raise JSONDecodeError st"
    using assms by (simp add: on_disconnect_def)
  moreover have w: "parse_warning_and_dispatch env stream_data st =
        Return RetFalse (log_to (ExceptionParsing stream_data) st)"
    using assms by (simp add: parse_warning_and_dispatch_def)
  moreover have "stop_on_false (parse_warning_and_dispatch env stream_data st) =
        Return RetFalse ((log_to (ExceptionParsing stream_data) st)\<lparr>running := False\<rparr>)"
    by (simp add: w stop_on_false_def)
  moreover have "after_filter opts (Some JSONDecodeError) st = Inr (unexpected st)"
    by (simp add: after_filter_def)
  moreover have "\<not> running (unexpected st)"
    by (simp add: unexpected_def log_to_def)
  ultimately show ?thesis
    using malformed_ends_session[OF assms] by blast
qed

text \<open>C4, amended, at the sample environment and the message of the counterexample.\<close>

theorem malformed_message_not_recovered_witness:
  \<open>json_loads sample_env ''{"in_reply_to_user_id_str":'' = None
   \<and> parse_status_and_dispatch sample_env default_opts 100 ''{"in_reply_to_user_id_str":'' init_listener
       = Raise JSONDecodeError init_listener
   \<and> parse_warning_and_dispatch sample_env ''{"in_reply_to_user_id_str":'' init_listener
       = Return RetFalse (log_to (ExceptionParsing ''{"in_reply_to_user_id_str":'') init_listener)
   \<and> (\<exists>st'. main_loop sample_env default_opts
               [\<lparr>callbacks = [Data ''{"in_reply_to_user_id_str":'' 100], ending = None\<rparr>]
               init_listener []
             = (Terminated st', [CallFilter]) \<and> \<not> running st')\<close>
proof -
  have l: \<open>json_loads sample_env ''{"in_reply_to_user_id_str":'' = None\<close>
    by (simp add: sample_env_def)
  have r: "running init_listener"
    by (simp add: init_listener_def)
  have s: "\<not> fst (should_stop default_opts 100
              (note_first_message 100 (log_to DebugFilter init_listener)))"
    by (simp add: run_defs)
  have f: \<open>find (\<lambda>r. recognizer_match r ''{"in_reply_to_user_id_str":'') recognizers
      = Some (DataContainsRecognizer StatusHandler ''"in_reply_to_user_id_str":'')\<close>
    by (simp add: recognizers_def)
  have h: \<open>handler_method (DataContainsRecognizer StatusHandler ''"in_reply_to_user_id_str":'')
      \<noteq> UnrecognizedHandler\<close>
    by simp
  show ?thesis
    using malformed_message_not_recovered[OF l, where opts = default_opts and now = 100
        and st = init_listener and cbs = "[]" and fin = None and as = "[]" and acts = "[]"
        and r = \<open>DataContainsRecognizer StatusHandler ''"in_reply_to_user_id_str":''\<close>]
      l r s f h
    by simp
qed

text \<open>
  C5, as the claim states it: after a decoding failure in the warning handler the loop
  keeps running. \<open>on_data\<close> on the text \<open>{"warning":\<close>, which the warning recognizer
  matches and which is not JSON, at time 100 on a fresh listener with the default
  options: it returns \<open>False\<close> and \<open>running\<close> is false afterwards.
\<close>

theorem warning_parse_failure_counterexample:
  \<open>fst (on_data sample_env default_opts 100 ''{"warning":'' init_listener)
   = Return RetFalse
       \<lparr>running = False, first_message_received = Some 100, status_count = 0,
        stdout = [], logged = [ExceptionParsing ''{"warning":'']\<rparr>\<close>
  by (simp add: run_defs)

text \<open>
  C5, amended. When the warning handler receives a message whose JSON decoding fails,
  it logs the exception and returns \<open>False\<close>; \<open>on_data\<close>, when the stop test at its entry
  did not already stop and the warning recognizer is the first that matches, then sets
  \<open>running\<close> to false and returns \<open>False\<close>: the signal is stop, not continue.
\<close>

theorem warning_parse_failure_stops:
  assumes "json_loads env stream_data = None"
    and "\<not> fst (should_stop opts now (note_first_message now st))"
    and "find (\<lambda>r. recognizer_match r stream_data) recognizers = Some (recognizers ! 2)"
  shows "handler_method (recognizers ! 2) = WarningHandler
    \<and> parse_warning_and_dispatch env stream_data st =
        Return RetFalse (log_to (ExceptionParsing stream_data) st)
    \<and> fst (on_data env opts now stream_data st) =
        Return RetFalse
          ((log_to (ExceptionParsing stream_data)
              (snd (should_stop opts now (note_first_message now st))))\<lparr>running := False\<rparr>)
    \<and> \<not> running (state_of (fst (on_data env opts now stream_data st)))"
proof -
  let ?st2 = "snd (should_stop opts now (note_first_message now st))"
  have h: "handler_method (recognizers ! 2) = WarningHandler"
    by (simp add: recognizers_def)
  have w: "\<And>s. parse_warning_and_dispatch env stream_data s =
      Return RetFalse (log_to (ExceptionParsing stream_data) s)"
    using assms(1) by (simp add: parse_warning_and_dispatch_def)
  have "fst (on_data env opts now stream_data st) =
      stop_on_false (handle_message env opts now (recognizers ! 2) stream_data ?st2)"
    using on_data_dispatch[OF assms(2)] dispatch_result[OF assms(3)] by simp
  then have "fst (on_data env opts now stream_data st) =
      Return RetFalse ((log_to (ExceptionParsing stream_data) ?st2)\<lparr>running := False\<rparr>)"
    using h w by (simp add: handle_message_def call_handler_def stop_on_false_def)
  then show ?thesis using h w by simp
qed

text \<open>C5, amended, at the sample environment and the message of the counterexample.\<close>

theorem warning_parse_failure_stops_witness:
  \<open>json_loads sample_env ''{"warning":'' = None
   \<and> \<not> fst (should_stop default_opts 100 (note_first_message 100 init_listener))
   \<and> find (\<lambda>r. recognizer_match r ''{"warning":'') recognizers = Some (recognizers ! 2)
   \<and> parse_warning_and_dispatch sample_env ''{"warning":'' init_listener
       = Return RetFalse (log_to (ExceptionParsing ''{"warning":'') init_listener)
   \<and> \<not> running (state_of (fst (on_data sample_env default_opts 100 ''{"warning":'' init_listener)))\<close>
proof -
  have l: \<open>json_loads sample_env ''{"warning":'' = None\<close>
    by (simp add: sample_env_def)
  have s: "\<not> fst (should_stop default_opts 100 (note_first_message 100 init_listener))"
    by (simp add: run_defs)
  have f: \<open>find (\<lambda>r. recognizer_match r ''{"warning":'') recognizers = Some (recognizers ! 2)\<close>
    by (simp add: recognizers_def)
  show ?thesis
    using warning_parse_failure_stops[OF l s f] l s f by simp
qed

section \<open>Properties of the status handler\<close>

text \<open>The loop over the fields ends with \<open>return False\<close> only at a field that does not
  resolve, and only when \<open>terminate_on_error\<close> is set.\<close>

lemma row_terminate_cause:
  "csv_fields env opts tweet fs csvrow = RowTerminate f \<Longrightarrow>
   terminate_on_error opts \<and> f \<in> set fs
   \<and> resolve_with_default env (ObjStatus tweet) f JNull = Inl AttributeError"
proof (induction fs arbitrary: csvrow)
  case Nil
  then show ?case by simp
next
  case (Cons g gs)
  show ?case
  proof (cases "field_value env opts tweet g")
    case (Inl r)
    then have "r = RowTerminate f" using Cons.prems by simp
    then show ?thesis
      using Inl by (auto simp: field_value_def split: sum.splits if_splits)
  next
    case (Inr v)
    show ?thesis
    proof (cases "append_field env v g csvrow")
      case (Inl r)
      then have "r = RowTerminate f" using Cons.prems Inr by simp
      then show ?thesis
        using Inl by (auto simp: append_field_def split: sum.splits if_splits)
    next
      case (Inr csvrow')
      then have "csv_fields env opts tweet gs csvrow' = RowTerminate f"
        using Cons.prems \<open>field_value env opts tweet g = Inr v\<close> by simp
      from Cons.IH[OF this] show ?thesis by simp
    qed
  qed
qed

lemma status_row_terminate:
  assumes "json_loads env stream_data = Some j" and "Status_parse env j = Inr tweet"
    and "tweet_matchp opts tweet"
    and "\<not> fst (should_stop opts now (st\<lparr>status_count := status_count st + 1\<rparr>))"
    and "field_list opts = Some fs0" and "fs0 \<noteq> []"
    and "csv_fields env opts tweet fs0 [] = RowTerminate f"
  shows "parse_status_and_dispatch env opts now stream_data st =
      Return RetFalse
        ((log_to (ErrorFieldNotFound f (id_str tweet))
            (snd (should_stop opts now (st\<lparr>status_count := status_count st + 1\<rparr>))))
           \<lparr>running := False\<rparr>)"
  using assms
  by (cases "should_stop opts now (st\<lparr>status_count := status_count st + 1\<rparr>)")
     (simp add: parse_status_and_dispatch_def emit_status_def write_csv_row_def)

text \<open>
  C6. Let the resolver raise \<open>AttributeError\<close> on the field \<open>f\<close> of a status. With
  \<open>terminate_on_error\<close> set, the loop over the fields ends at \<open>f\<close> with \<open>return False\<close>;
  the block then logs the error, clears \<open>running\<close> and writes no row, and the status
  handler that reached the block returns \<open>False\<close> with \<open>running\<close> false and standard
  output as it was. Without \<open>terminate_on_error\<close> the value of the field is the empty
  string and the loop goes on as for any resolved value: the value is encoded and
  appended and the remaining fields follow; where encoding the empty string gives the
  empty string, the row continues with the empty string in that column.
\<close>

theorem missing_field_policy:
  assumes "resolve_with_default env (ObjStatus tweet) f JNull = Inl AttributeError"
  shows "(terminate_on_error opts \<longrightarrow>
            csv_fields env opts tweet (f # fs) csvrow = RowTerminate f)
    \<and> (\<not> terminate_on_error opts \<longrightarrow>
          field_value env opts tweet f = Inr (JStr [])
          \<and> csv_fields env opts tweet (f # fs) csvrow =
             (case append_field env (JStr []) f csvrow of
                Inl r \<Rightarrow> r
              | Inr csvrow' \<Rightarrow> csv_fields env opts tweet fs csvrow'))
    \<and> (\<not> terminate_on_error opts \<longrightarrow> str_encode env [] = Inr [] \<longrightarrow>
          csv_fields env opts tweet (f # fs) csvrow =
            csv_fields env opts tweet fs (csvrow @ [JStr []]))
    \<and> (csv_fields env opts tweet fs0 [] = RowTerminate f \<longrightarrow>
          write_csv_row env opts tweet fs0 st =
            Return (Some RetFalse)
              ((log_to (ErrorFieldNotFound f (id_str tweet)) st)\<lparr>running := False\<rparr>))
    \<and> (json_loads env stream_data = Some j \<longrightarrow> Status_parse env j = Inr tweet \<longrightarrow>
          tweet_matchp opts tweet \<longrightarrow>
          \<not> fst (should_stop opts now (st\<lparr>status_count := status_count st + 1\<rparr>)) \<longrightarrow>
          field_list opts = Some fs0 \<longrightarrow> fs0 \<noteq> [] \<longrightarrow>
          csv_fields env opts tweet fs0 [] = RowTerminate f \<longrightarrow>
            (\<exists>st'. parse_status_and_dispatch env opts now stream_data st = Return RetFalse st'
                   \<and> \<not> running st' \<and> stdout st' = stdout st))"
proof -
  have a: "terminate_on_error opts \<longrightarrow>
      csv_fields env opts tweet (f # fs) csvrow = RowTerminate f"
    using assms by (simp add: field_value_def)
  have b: "\<not> terminate_on_error opts \<longrightarrow>
      field_value env opts tweet f = Inr (JStr [])
      \<and> csv_fields env opts tweet (f # fs) csvrow =
         (case append_field env (JStr []) f csvrow of
            Inl r \<Rightarrow> r
          | Inr csvrow' \<Rightarrow> csv_fields env opts tweet fs csvrow')"
    using assms by (simp add: field_value_def MISSING_FIELD_VALUE_def)
  have c: "\<not> terminate_on_error opts \<longrightarrow> str_encode env [] = Inr [] \<longrightarrow>
      csv_fields env opts tweet (f # fs) csvrow =
        csv_fields env opts tweet fs (csvrow @ [JStr []])"
    using b by (simp add: append_field_def encode_value_def)
  have d: "csv_fields env opts tweet fs0 [] = RowTerminate f \<longrightarrow>
      write_csv_row env opts tweet fs0 st =
        Return (Some RetFalse)
          ((log_to (ErrorFieldNotFound f (id_str tweet)) st)\<lparr>running := False\<rparr>)"
    by (simp add: write_csv_row_def)
  have e: "json_loads env stream_data = Some j \<longrightarrow> Status_parse env j = Inr tweet \<longrightarrow>
      tweet_matchp opts tweet \<longrightarrow>
      \<not> fst (should_stop opts now (st\<lparr>status_count := status_count st + 1\<rparr>)) \<longrightarrow>
      field_list opts = Some fs0 \<longrightarrow> fs0 \<noteq> [] \<longrightarrow>
      csv_fields env opts tweet fs0 [] = RowTerminate f \<longrightarrow>
        (\<exists>st'. parse_status_and_dispatch env opts now stream_data st = Return RetFalse st'
               \<and> \<not> running st' \<and> stdout st' = stdout st)"
    using status_row_terminate[of env stream_data j tweet opts now st fs0 f]
      should_stop_frame(3)[of opts now "st\<lparr>status_count := status_count st + 1\<rparr>"]
    by (simp add: log_to_def)
  show ?thesis using a b c d e by blast
qed

text \<open>C6 at the sample environment, whose resolver raises on the path \<open>missing\<close>: the
  fields \<open>text\<close>, \<open>missing\<close>, \<open>id_str\<close> with and without \<open>terminate_on_error\<close>.\<close>

theorem missing_field_policy_witness:
  "resolve_with_default sample_env (ObjStatus tweet_en) ''missing'' JNull = Inl AttributeError
   \<and> csv_fields sample_env (default_opts\<lparr>terminate_on_error := True\<rparr>) tweet_en
        [''missing'', ''id_str''] [JStr ''text''] = RowTerminate ''missing''
   \<and> csv_fields sample_env default_opts tweet_en [''missing'', ''id_str''] [JStr ''text'']
       = RowComplete [JStr ''text'', JStr [], JStr ''id_str'']
   \<and> (\<exists>st'. parse_status_and_dispatch sample_env
               (default_opts\<lparr>field_list := Some [''text'', ''missing'', ''id_str''],
                              terminate_on_error := True\<rparr>) 100 ''{}'' init_listener
             = Return RetFalse st' \<and> \<not> running st' \<and> stdout st' = stdout init_listener)"
proof -
  let ?optsT = "default_opts\<lparr>field_list := Some [''text'', ''missing'', ''id_str''],
                              terminate_on_error := True\<rparr>"
  have h: "resolve_with_default sample_env (ObjStatus tweet_en) ''missing'' JNull
      = Inl AttributeError"
    by (simp add: sample_env_def)
  have t: "terminate_on_error (default_opts\<lparr>terminate_on_error := True\<rparr>)"
    "\<not> terminate_on_error default_opts"
    "str_encode sample_env [] = Inr []"
    by (simp_all add: sample_env_def default_opts_def)
  have row: "csv_fields sample_env ?optsT tweet_en [''text'', ''missing'', ''id_str''] []
      = RowTerminate ''missing''"
    by (simp add: run_defs)
  have pre: "json_loads sample_env ''{}'' = Some (JObj [])"
    "Status_parse sample_env (JObj []) = Inr tweet_en"
    "tweet_matchp ?optsT tweet_en"
    "\<not> fst (should_stop ?optsT 100 (init_listener\<lparr>status_count := status_count init_listener + 1\<rparr>))"
    "field_list ?optsT = Some [''text'', ''missing'', ''id_str'']"
    "[''text'', ''missing'', ''id_str''] \<noteq> []"
    by (simp_all add: run_defs)
  have rest: "csv_fields sample_env default_opts tweet_en [''id_str''] ([JStr ''text''] @ [JStr []])
      = RowComplete [JStr ''text'', JStr [], JStr ''id_str'']"
    by (simp add: run_defs)
  have a: "csv_fields sample_env (default_opts\<lparr>terminate_on_error := True\<rparr>) tweet_en
        [''missing'', ''id_str''] [JStr ''text''] = RowTerminate ''missing''"
    using missing_field_policy[OF h, where opts = "default_opts\<lparr>terminate_on_error := True\<rparr>"
        and fs = "[''id_str'']" and csvrow = "[JStr ''text'']"] t(1)
    by blast
  have b: "csv_fields sample_env default_opts tweet_en [''missing'', ''id_str''] [JStr ''text'']
       = RowComplete [JStr ''text'', JStr [], JStr ''id_str'']"
    using missing_field_policy[OF h, where opts = default_opts
        and fs = "[''id_str'']" and csvrow = "[JStr ''text'']"] t(2,3) rest
    by metis
  have c: "\<exists>st'. parse_status_and_dispatch sample_env ?optsT 100 ''{}'' init_listener
             = Return RetFalse st' \<and> \<not> running st' \<and> stdout st' = stdout init_listener"
    using missing_field_policy[OF h, where opts = ?optsT and stream_data = "''{}''"
        and j = "JObj []" and now = 100 and st = init_listener
        and fs0 = "[''text'', ''missing'', ''id_str'']"] row pre
    by blast
  show ?thesis using h a b c by blast
qed

text \<open>
  C7, as the claim states it: the counter is incremented only for records that are
  emitted. With \<open>max_tweets = 1\<close> and one record already counted, a matched status makes
  the handler stop: it returns \<open>False\<close>, \<open>running\<close> is false, nothing is written, and the
  counter has gone from 1 to 2.
\<close>

theorem status_count_incremented_on_stop:
  "parse_status_and_dispatch sample_env (default_opts\<lparr>max_tweets := Some 1\<rparr>) 100 ''{}''
     (init_listener\<lparr>status_count := 1\<rparr>)
   = Return RetFalse
       \<lparr>running = False, first_message_received = None, status_count = 2,
        stdout = [], logged = [DebugStopCount 1]\<rparr>"
  by (simp add: run_defs)

text \<open>
  C7, amended. For a status that decodes and parses: when it matches, the counter is
  incremented, before the stop test and whatever the handler does next; if the stop
  test on the incremented count says stop, the handler clears \<open>running\<close> and returns
  \<open>False\<close> and writes nothing. When the status does not match, the counter and standard
  output are unchanged.
\<close>

theorem status_count_counts_matched:
  assumes "json_loads env stream_data = Some j" and "Status_parse env j = Inr tweet"
  shows "(tweet_matchp opts tweet \<longrightarrow>
            status_count (state_of (parse_status_and_dispatch env opts now stream_data st))
              = status_count st + 1)
     \<and> (tweet_matchp opts tweet \<longrightarrow>
          fst (should_stop opts now (st\<lparr>status_count := status_count st + 1\<rparr>)) \<longrightarrow>
            parse_status_and_dispatch env opts now stream_data st =
              Return RetFalse
                ((snd (should_stop opts now (st\<lparr>status_count := status_count st + 1\<rparr>)))
                   \<lparr>running := False\<rparr>)
            \<and> stdout (state_of (parse_status_and_dispatch env opts now stream_data st)) = stdout st
            \<and> \<not> running (state_of (parse_status_and_dispatch env opts now stream_data st)))
     \<and> (\<not> tweet_matchp opts tweet \<longrightarrow>
            status_count (state_of (parse_status_and_dispatch env opts now stream_data st))
              = status_count st
            \<and> stdout (state_of (parse_status_and_dispatch env opts now stream_data st)) = stdout st)"
proof -
  let ?st1 = "st\<lparr>status_count := status_count st + 1\<rparr>"
  obtain stop st2 where ss: "should_stop opts now ?st1 = (stop, st2)"
    by (cases "should_stop opts now ?st1")
  have st2: "status_count st2 = status_count st + 1" "stdout st2 = stdout st"
    using should_stop_frame(2)[of opts now ?st1] should_stop_frame(3)[of opts now ?st1] ss
    by simp_all
  have m: "tweet_matchp opts tweet \<Longrightarrow>
      parse_status_and_dispatch env opts now stream_data st =
        (if stop then Return RetFalse (st2\<lparr>running := False\<rparr>)
         else (case emit_status env opts stream_data tweet st2 of
                 Return None st3 \<Rightarrow> lag_check env opts now stream_data st3
               | Return (Some r) st3 \<Rightarrow> Return r st3
               | Raise e st3 \<Rightarrow> Raise e st3))"
    using assms ss by (simp add: parse_status_and_dispatch_def)
  have n: "\<not> tweet_matchp opts tweet \<Longrightarrow>
      parse_status_and_dispatch env opts now stream_data st = lag_check env opts now stream_data st"
    using assms by (simp add: parse_status_and_dispatch_def)
  have e: "status_count (state_of (emit_status env opts stream_data tweet st2)) = status_count st + 1"
    using st2 by (simp add: emit_status_count)
  have c1: "tweet_matchp opts tweet \<Longrightarrow>
      status_count (state_of (parse_status_and_dispatch env opts now stream_data st))
        = status_count st + 1"
  proof -
    assume t: "tweet_matchp opts tweet"
    show ?thesis
    proof (cases stop)
      case True
      then show ?thesis using m[OF t] st2 by simp
    next
      case False
      show ?thesis
      proof (cases "emit_status env opts stream_data tweet st2")
        case (Return r st3)
        then show ?thesis
          using m[OF t] False e lag_check_frame(2)[of env opts now stream_data st3]
          by (cases r) simp_all
      next
        case (Raise x st3)
        then show ?thesis using m[OF t] False e by simp
      qed
    qed
  qed
  have c2: "tweet_matchp opts tweet \<Longrightarrow> stop \<Longrightarrow>
      parse_status_and_dispatch env opts now stream_data st = Return RetFalse (st2\<lparr>running := False\<rparr>)"
    using m by simp
  show ?thesis
    using c1 c2 n ss st2 lag_check_frame(2,3)[of env opts now stream_data st] by auto
qed

text \<open>C7, amended, at the sample environment: the matched status of the counterexample,
  and the same status when only French is allowed.\<close>

theorem status_count_counts_matched_witness:
  "json_loads sample_env ''{}'' = Some (JObj [])
   \<and> Status_parse sample_env (JObj []) = Inr tweet_en
   \<and> tweet_matchp (default_opts\<lparr>max_tweets := Some 1\<rparr>) tweet_en
   \<and> status_count (state_of (parse_status_and_dispatch sample_env
        (default_opts\<lparr>max_tweets := Some 1\<rparr>) 100 ''{}'' (init_listener\<lparr>status_count := 1\<rparr>))) = 2
   \<and> \<not> running (state_of (parse_status_and_dispatch sample_env
        (default_opts\<lparr>max_tweets := Some 1\<rparr>) 100 ''{}'' (init_listener\<lparr>status_count := 1\<rparr>)))
   \<and> \<not> tweet_matchp (default_opts\<lparr>user_lang := [''fr'']\<rparr>) tweet_en
   \<and> status_count (state_of (parse_status_and_dispatch sample_env
        (default_opts\<lparr>user_lang := [''fr'']\<rparr>) 100 ''{}'' (init_listener\<lparr>status_count := 1\<rparr>))) = 1"
proof -
  let ?st = "init_listener\<lparr>status_count := 1\<rparr>"
  have l: "json_loads sample_env ''{}'' = Some (JObj [])"
    by (simp add: sample_env_def)
  have p: "Status_parse sample_env (JObj []) = Inr tweet_en"
    by (simp add: sample_env_def)
  have m: "tweet_matchp (default_opts\<lparr>max_tweets := Some 1\<rparr>) tweet_en"
    "\<not> tweet_matchp (default_opts\<lparr>user_lang := [''fr'']\<rparr>) tweet_en"
    by (simp_all add: run_defs)
  have s: "fst (should_stop (default_opts\<lparr>max_tweets := Some 1\<rparr>) 100
            (?st\<lparr>status_count := status_count ?st + 1\<rparr>))"
    by (simp add: run_defs)
  have n: "status_count ?st + 1 = 2" "status_count ?st = 1"
    by (simp_all add: init_listener_def)
  have a: "status_count (state_of (parse_status_and_dispatch sample_env
        (default_opts\<lparr>max_tweets := Some 1\<rparr>) 100 ''{}'' ?st)) = status_count ?st + 1"
    using status_count_counts_matched[OF l p, where opts = "default_opts\<lparr>max_tweets := Some 1\<rparr>"
        and now = 100 and st = ?st] m(1)
    by blast
  have b: "\<not> running (state_of (parse_status_and_dispatch sample_env
        (default_opts\<lparr>max_tweets := Some 1\<rparr>) 100 ''{}'' ?st))"
    using status_count_counts_matched[OF l p, where opts = "default_opts\<lparr>max_tweets := Some 1\<rparr>"
        and now = 100 and st = ?st] m(1) s
    by blast
  have c: "status_count (state_of (parse_status_and_dispatch sample_env
        (default_opts\<lparr>user_lang := [''fr'']\<rparr>) 100 ''{}'' ?st)) = status_count ?st"
    using status_count_counts_matched[OF l p, where opts = "default_opts\<lparr>user_lang := [''fr'']\<rparr>"
        and now = 100 and st = ?st] m(2)
    by blast
  show ?thesis using l p m a b c n by simp
qed

section \<open>Properties of the session loop\<close>

lemma backoff_log_running: "running (backoff_log n st) = running st"
  by (induction n arbitrary: st) (simp_all add: log_to_def)

lemma io_error_step:
  assumes "running st" and "stream_filter env opts a (log_to DebugFilter st) = (Some IOError, st2)"
    and "running st2"
  shows "main_loop env opts (a # as) st acts =
     (if terminate_on_error opts
      then (Terminated (log_to ExceptionIOError (st2\<lparr>running := False\<rparr>)), acts @ [CallFilter])
      else main_loop env opts as (log_to DebugSleeping (log_to ExceptionIOError st2))
             (acts @ [CallFilter, Sleep 5]))"
  using assms by (simp add: after_filter_def main_loop_stopped log_to_def)

lemma io_error_attempt_filter:
  "stream_filter env opts io_error_attempt st = (Some IOError, st)"
  by (simp add: io_error_attempt_def stream_filter_def)

lemma io_error_retry:
  "running st \<Longrightarrow> \<not> terminate_on_error opts \<Longrightarrow>
   main_loop env opts (replicate n io_error_attempt) st acts =
     (Connecting (backoff_log n st), acts @ concat (replicate n [CallFilter, Sleep 5]))"
proof (induction n arbitrary: st acts)
  case 0
  then show ?case by simp
next
  case (Suc n)
  have r1: "running (log_to DebugFilter st)"
    using Suc.prems(1) by (simp add: log_to_def)
  have r: "running (log_to DebugSleeping (log_to ExceptionIOError (log_to DebugFilter st)))"
    using Suc.prems(1) by (simp add: log_to_def)
  show ?case
    using io_error_step[OF Suc.prems(1) io_error_attempt_filter r1, of env opts "replicate n io_error_attempt" acts]
      Suc.IH[OF r Suc.prems(2)] Suc.prems(2)
    by simp
qed

text \<open>
  C8, as the claim states it: on a transport-reported error status the session, without
  \<open>terminate_on_error\<close>, sleeps and retries. A run with the default options whose first
  call of \<open>streamer.filter\<close> reports the HTTP status 420: \<open>on_error\<close> clears \<open>running\<close> and
  returns \<open>False\<close>, the call returns, and the loop is left with no sleep and no second
  call, although a second attempt was available.
\<close>

theorem http_error_status_ends_session:
  "process_tweets sample_env default_opts None
      [\<lparr>callbacks = [HttpError 420], ending = None\<rparr>, \<lparr>callbacks = [], ending = None\<rparr>]
   = (Terminated
        \<lparr>running = False, first_message_received = None, status_count = 0,
         stdout = [], logged = [DebugFilter, ErrorOnError 420, ErrorStopping, DebugReturned]\<rparr>,
      [CallFilter])
   \<and> \<not> terminate_on_error default_opts"
  by (simp add: loop_defs run_defs)

text \<open>
  C8, amended. When a call of \<open>streamer.filter\<close> on a running listener ends with
  \<open>IOError\<close>: with \<open>terminate_on_error\<close> the loop logs and is left, the session is
  terminated; without it the loop logs, sleeps 5 and calls \<open>streamer.filter\<close> again.
  There is no bound on the attempts: after any number \<open>n\<close> of calls that raise \<open>IOError\<close>
  the loop has called and slept \<open>n\<close> times, \<open>running\<close> is still true and the next call is
  due. An error status reported by the transport is not retried in this way: for a
  status other than 401 \<open>on_error\<close> clears \<open>running\<close> and returns \<open>False\<close> whatever
  \<open>terminate_on_error\<close> is, and for 401 it leaves \<open>running\<close> as it is.
\<close>

theorem io_error_backoff:
  "(running st \<longrightarrow> stream_filter env opts a (log_to DebugFilter st) = (Some IOError, sta) \<longrightarrow>
      running sta \<longrightarrow>
      main_loop env opts (a # as) st acts =
        (if terminate_on_error opts
         then (Terminated (log_to ExceptionIOError (sta\<lparr>running := False\<rparr>)), acts @ [CallFilter])
         else main_loop env opts as (log_to DebugSleeping (log_to ExceptionIOError sta))
                (acts @ [CallFilter, Sleep 5])))
   \<and> (running st \<longrightarrow> \<not> terminate_on_error opts \<longrightarrow>
      main_loop env opts (replicate n io_error_attempt) st acts =
        (Connecting (backoff_log n st), acts @ concat (replicate n [CallFilter, Sleep 5]))
      \<and> running (backoff_log n st))
   \<and> (status_code \<noteq> 401 \<longrightarrow>
        on_error status_code st =
          Return RetFalse
            ((log_to ErrorStopping (log_to (ErrorOnError status_code) st))\<lparr>running := False\<rparr>))
   \<and> on_error 401 st = Return RetNone (log_to (ErrorOnError 401) st)"
  using io_error_step[of st env opts a sta as acts] io_error_retry[of st opts env n acts]
    backoff_log_running[of n st]
  by (simp add: on_error_def)

text \<open>C8, amended, on a fresh listener: one failing call with \<open>terminate_on_error\<close>, three
  failing calls without it, and the status 420.\<close>

theorem io_error_backoff_witness:
  "running init_listener
   \<and> terminate_on_error (default_opts\<lparr>terminate_on_error := True\<rparr>)
   \<and> \<not> terminate_on_error default_opts
   \<and> main_loop sample_env (default_opts\<lparr>terminate_on_error := True\<rparr>)
            [io_error_attempt, io_error_attempt] init_listener []
       = (Terminated (log_to ExceptionIOError ((log_to DebugFilter init_listener)\<lparr>running := False\<rparr>)),
          [CallFilter])
   \<and> main_loop sample_env default_opts (replicate 3 io_error_attempt) init_listener []
       = (Connecting (backoff_log 3 init_listener),
          [CallFilter, Sleep 5, CallFilter, Sleep 5, CallFilter, Sleep 5])
   \<and> running (backoff_log 3 init_listener)
   \<and> \<not> running (state_of (on_error 420 init_listener))"
proof -
  have r: "running init_listener" "running (log_to DebugFilter init_listener)"
    by (simp_all add: init_listener_def log_to_def)
  have t: "terminate_on_error (default_opts\<lparr>terminate_on_error := True\<rparr>)"
    "\<not> terminate_on_error default_opts"
    by (simp_all add: default_opts_def)
  have c: "[] @ concat (replicate 3 [CallFilter, Sleep 5])
      = [CallFilter, Sleep 5, CallFilter, Sleep 5, CallFilter, Sleep 5]"
    "[] @ [CallFilter] = [CallFilter]" "(420::int) \<noteq> 401"
    by (simp_all add: numeral_3_eq_3)
  have f: "stream_filter sample_env (default_opts\<lparr>terminate_on_error := True\<rparr>) io_error_attempt
      (log_to DebugFilter init_listener) = (Some IOError, log_to DebugFilter init_listener)"
    by (rule io_error_attempt_filter)
  have a: "main_loop sample_env (default_opts\<lparr>terminate_on_error := True\<rparr>)
            (io_error_attempt # [io_error_attempt]) init_listener []
       = (Terminated (log_to ExceptionIOError ((log_to DebugFilter init_listener)\<lparr>running := False\<rparr>)),
          [] @ [CallFilter])"
    using io_error_backoff[where st = init_listener and env = sample_env
        and opts = "default_opts\<lparr>terminate_on_error := True\<rparr>" and a = io_error_attempt
        and sta = "log_to DebugFilter init_listener" and as = "[io_error_attempt]"
        and acts = "[]"] r t(1) f
    by simp
  have b: "main_loop sample_env default_opts (replicate 3 io_error_attempt) init_listener []
       = (Connecting (backoff_log 3 init_listener), [] @ concat (replicate 3 [CallFilter, Sleep 5]))
     \<and> running (backoff_log 3 init_listener)"
    using io_error_backoff[where st = init_listener and env = sample_env
        and opts = default_opts and acts = "[]" and n = 3] r(1) t(2)
    by blast
  have d: "on_error 420 init_listener =
      Return RetFalse
        ((log_to ErrorStopping (log_to (ErrorOnError 420) init_listener))\<lparr>running := False\<rparr>)"
    using io_error_backoff[where st = init_listener and status_code = 420] c(3)
    by blast
  show ?thesis using r(1) t a b d c(1,2) by simp
qed

section \<open>Properties of the language filter\<close>

lemma unmatched_status_frame:
  assumes "json_loads env stream_data = Some j" and "Status_parse env j = Inr tweet"
    and "\<not> tweet_matchp opts tweet"
  shows "stdout (state_of (parse_status_and_dispatch env opts now stream_data st)) = stdout st"
  using assms lag_check_frame(3)[of env opts now stream_data st]
  by (simp add: parse_status_and_dispatch_def)

text \<open>
  C10. Without \<open>--user-lang\<close> the allow-list is \<open>['en']\<close>, and then a status whose user
  language is not \<open>en\<close> does not match, so the status handler prints nothing for it.
  The allow-list is empty exactly when the option was given with \<open>*\<close> among its
  comma-separated values; with an empty allow-list no status is excluded for its
  language.
\<close>

theorem user_lang_default:
  "parse_user_lang None = [''en'']
   \<and> (user_lang opts = parse_user_lang None \<longrightarrow> status_user_lang tweet \<noteq> ''en''
        \<longrightarrow> \<not> tweet_matchp opts tweet)
   \<and> (parse_user_lang arg = [] \<longleftrightarrow> (\<exists>v. arg = Some v \<and> ''*'' \<in> set (csv_args v)))
   \<and> (user_lang opts = [] \<longrightarrow> tweet_matchp opts tweet = (\<not> (no_retweets opts \<and> is_retweet tweet)))
   \<and> (user_lang opts = parse_user_lang None \<longrightarrow> status_user_lang tweet \<noteq> ''en'' \<longrightarrow>
        json_loads env stream_data = Some j \<longrightarrow> Status_parse env j = Inr tweet \<longrightarrow>
        stdout (state_of (parse_status_and_dispatch env opts now stream_data st)) = stdout st)"
proof -
  have en: "parse_user_lang None = [''en'']"
    by (simp add: parse_user_lang_def csv_args_def)
  have star: "parse_user_lang arg = [] \<longleftrightarrow> (\<exists>v. arg = Some v \<and> ''*'' \<in> set (csv_args v))"
  proof (cases arg)
    case None
    then show ?thesis using en by simp
  next
    case (Some v)
    then show ?thesis
      using csv_args_nonempty[of v] by (simp add: parse_user_lang_def Let_def)
  qed
  have no: "user_lang opts = parse_user_lang None \<longrightarrow> status_user_lang tweet \<noteq> ''en''
      \<longrightarrow> \<not> tweet_matchp opts tweet"
    using en by (auto simp: tweet_matchp_def)
  have out: "user_lang opts = parse_user_lang None \<longrightarrow> status_user_lang tweet \<noteq> ''en'' \<longrightarrow>
      json_loads env stream_data = Some j \<longrightarrow> Status_parse env j = Inr tweet \<longrightarrow>
      stdout (state_of (parse_status_and_dispatch env opts now stream_data st)) = stdout st"
    using no unmatched_status_frame[of env stream_data j tweet opts now st] by blast
  have all: "user_lang opts = [] \<longrightarrow>
      tweet_matchp opts tweet = (\<not> (no_retweets opts \<and> is_retweet tweet))"
    by (auto simp: tweet_matchp_def)
  show ?thesis using en star no out all by blast
qed

text \<open>C10 at the default options, a status of a French-language user, and \<open>-u '*'\<close>.\<close>

theorem user_lang_default_witness:
  "parse_user_lang None = [''en'']
   \<and> \<not> tweet_matchp default_opts tweet_fr
   \<and> parse_user_lang (Some ''*'') = []
   \<and> tweet_matchp (default_opts\<lparr>user_lang := parse_user_lang (Some ''*'')\<rparr>) tweet_fr
   \<and> stdout (state_of (parse_status_and_dispatch
        (sample_env\<lparr>Status_parse := (\<lambda>j. Inr tweet_fr)\<rparr>) default_opts 100 ''{}'' init_listener))
       = stdout init_listener"
proof -
  let ?env = "sample_env\<lparr>Status_parse := (\<lambda>j. Inr tweet_fr)\<rparr>"
  let ?all = "default_opts\<lparr>user_lang := parse_user_lang (Some ''*'')\<rparr>"
  have d: "user_lang default_opts = parse_user_lang None" "status_user_lang tweet_fr \<noteq> ''en''"
    "json_loads ?env ''{}'' = Some (JObj [])" "Status_parse ?env (JObj []) = Inr tweet_fr"
    by (simp_all add: default_opts_def tweet_fr_def tweet_en_def sample_env_def)
  have v: "\<exists>v. Some ''*'' = Some v \<and> ''*'' \<in> set (csv_args v)"
    by (simp add: csv_args_def)
  have star: "parse_user_lang (Some ''*'') = []"
    using user_lang_default[where arg = "Some ''*''"] v by blast
  have r: "\<not> (no_retweets ?all \<and> is_retweet tweet_fr)" "user_lang ?all = []"
    using star by (simp_all add: default_opts_def)
  have a: "parse_user_lang None = [''en''] \<and> \<not> tweet_matchp default_opts tweet_fr
      \<and> stdout (state_of (parse_status_and_dispatch ?env default_opts 100 ''{}'' init_listener))
          = stdout init_listener"
    using user_lang_default[where opts = default_opts and tweet = tweet_fr and env = ?env
        and stream_data = "''{}''" and j = "JObj []" and now = 100 and st = init_listener] d
    by blast
  have b: "tweet_matchp ?all tweet_fr"
    using user_lang_default[where opts = ?all and tweet = tweet_fr] r by blast
  show ?thesis using a b star by blast
qed

end
